theory Spec2Isabelle
  imports Main "HOL-Library.Word"
begin

section \<open>The SOCKS5 server of socks5.go\<close>

text \<open>
  The development embeds \<^verbatim>\<open>socks5.go\<close>: the constructor \<^verbatim>\<open>New\<close>, the accept loop
  \<^verbatim>\<open>Serve\<close> and the per-connection handler \<^verbatim>\<open>ServeConn\<close>. Collaborators that
  are declared in other files of the package (\<^verbatim>\<open>authenticate\<close>, \<^verbatim>\<open>NewRequest\<close>,
  \<^verbatim>\<open>sendReply\<close>, \<^verbatim>\<open>handleRequest\<close>, the authenticators' \<^verbatim>\<open>GetCode\<close>) are
  parameters: what they return is an input of the model, what the handler does with it
  is the model.
\<close>

subsection \<open>Data\<close>

text \<open>
  Go interface values and pointers may be \<^verbatim>\<open>nil\<close>: such a field is an \<open>option\<close>.
  An implementation supplied by the caller is identified by a number.
\<close>

datatype CredentialStore = CredentialStore nat

datatype Authenticator =
    UserPassAuthenticator CredentialStore
  | NoAuthAuthenticator
  | OtherAuthenticator nat

datatype NameResolver = DNSResolver | OtherResolver nat

text \<open>\<open>PermitAll\<close> stands for the value returned by the call \<^verbatim>\<open>PermitAll()\<close>.\<close>

datatype RuleSet = PermitAll | OtherRules nat

datatype AddressRewriter = AddressRewriter nat

text \<open>\<open>StdoutLogger\<close> stands for \<^verbatim>\<open>log.New(os.Stdout, "", log.LstdFlags)\<close>.\<close>

datatype Logger = StdoutLogger | OtherLogger nat

datatype DialFunc = DialFunc nat

record Config =
  AuthMethods :: "Authenticator list"
  Credentials :: "CredentialStore option"
  Resolver :: "NameResolver option"
  Rules :: "RuleSet option"
  Rewriter :: "AddressRewriter option"
  BindIP :: "8 word list"
  Logger :: "Logger option"
  Dial :: "DialFunc option"
  ConnLimit :: int
  IdleTimeout :: int
  ConnectTimeout :: int

record FinishedConnInfo =
  IP :: string
  Port :: string
  Duration :: int

text \<open>
  A channel carries its capacity and the number of values buffered in it;
  \<^verbatim>\<open>make(chan T, n)\<close> is \<open>make_chan n\<close>, \<^verbatim>\<open>make(chan T)\<close> is \<open>make_chan 0\<close>.
  The values buffered in \<^verbatim>\<open>sema\<close> are all \<^verbatim>\<open>struct{}{}\<close>, so their number is the
  whole content.
\<close>

record chan =
  chan_cap :: nat
  chan_len :: nat

definition make_chan :: "nat \<Rightarrow> chan" where
  "make_chan n = \<lparr>chan_cap = n, chan_len = 0\<rparr>"

text \<open>
  \<^verbatim>\<open>New\<close> takes a \<^verbatim>\<open>*Config\<close> and the server keeps that pointer, so the
  configurations live in a store and a pointer is an address of it. An address outside
  the store's domain is the \<^verbatim>\<open>nil\<close> pointer.
\<close>

type_synonym addr = nat

type_synonym heap = "addr \<rightharpoonup> Config"

record Server =
  config :: addr
  authMethods :: "8 word \<rightharpoonup> Authenticator"
  sema :: chan
  ConnCountChan :: chan
  ConnCount :: "64 word"
  FinishedConnChan :: chan

datatype panic =
    NilPointerDereference
  | MakechanSizeOutOfRange
  | CollaboratorPanic string

subsection \<open>The constructor\<close>

text \<open>
  \<^verbatim>\<open>New\<close>, lines 78 to 120. Every assignment \<^verbatim>\<open>conf.X = v\<close> writes through the
  pointer, so the store is returned updated, also when \<^verbatim>\<open>make\<close> panics afterwards
  on a negative capacity. \<^verbatim>\<open>New\<close> has no path that returns a non-nil error.
  The loop over \<^verbatim>\<open>conf.AuthMethods\<close> is a left fold: a later authenticator with
  the same code replaces an earlier one.
\<close>

definition New ::
  "(Authenticator \<Rightarrow> 8 word) \<Rightarrow> heap \<Rightarrow> addr \<Rightarrow> heap \<times> (panic + Server)" where
  "New GetCode h conf =
    (case h conf of
       None \<Rightarrow> (h, Inl NilPointerDereference)
     | Some c0 \<Rightarrow>
        let c1 = (if length (AuthMethods c0) = 0
                  then (case Credentials c0 of
                          Some cs \<Rightarrow> c0\<lparr>AuthMethods := [UserPassAuthenticator cs]\<rparr>
                        | None \<Rightarrow> c0\<lparr>AuthMethods := [NoAuthAuthenticator]\<rparr>)
                  else c0);
            c2 = (if Resolver c1 = None then c1\<lparr>Resolver := Some DNSResolver\<rparr> else c1);
            c3 = (if Rules c2 = None then c2\<lparr>Rules := Some PermitAll\<rparr> else c2);
            c4 = (if Logger c3 = None then c3\<lparr>Logger := Some StdoutLogger\<rparr> else c3);
            c5 = (if ConnLimit c4 = 0 then c4\<lparr>ConnLimit := 50000\<rparr> else c4);
            h' = h(conf \<mapsto> c5)
        in if ConnLimit c5 < 0 then (h', Inl MakechanSizeOutOfRange)
           else (h', Inr \<lparr>config = conf,
                          authMethods = fold (\<lambda>a m. m(GetCode a \<mapsto> a)) (AuthMethods c5) Map.empty,
                          sema = make_chan (nat (ConnLimit c5)),
                          ConnCountChan = make_chan 0,
                          ConnCount = 0,
                          FinishedConnChan = make_chan 0\<rparr>))"

subsection \<open>The connection handler\<close>

definition socks5Version :: "8 word" where
  "socks5Version = 5"

text \<open>
  Modelled from the spec: the reply status codes, which \<^verbatim>\<open>socks5.go\<close> uses through
  the constant \<^verbatim>\<open>addrTypeNotSupported\<close> but does not declare. The spec lists them as
  succeeded, general failure, not allowed by ruleset, network unreachable, host
  unreachable, connection refused, TTL expired, command not supported and address type
  not supported.
\<close>

datatype reply_status =
    succeeded
  | generalFailure
  | notAllowedByRuleset
  | networkUnreachable
  | hostUnreachable
  | connectionRefused
  | ttlExpired
  | commandNotSupported
  | addrTypeNotSupported

text \<open>
  Error values. \<open>unrecognizedAddrType\<close> is the sentinel the handler compares with;
  \<open>CollaboratorError\<close> is any other error a collaborator or the connection returns.
  The remaining constructors are the handler's own \<^verbatim>\<open>fmt.Errorf\<close> values, each
  around the value it formats.
\<close>

datatype error =
    Exhausted
  | UnsupportedVersion "8 word"
  | unrecognizedAddrType
  | CollaboratorError string
  | FailedToAuthenticate error
  | FailedToSendReply error
  | FailedToReadDestination error
  | FailedToHandleRequest error

text \<open>A call of a collaborator returns or panics.\<close>

datatype 'a outcome = Returns 'a | Panics panic

text \<open>
  \<^verbatim>\<open>bufConn.Read(version)\<close> on a one-byte buffer stores a byte, or returns an error,
  or returns zero bytes and no error, which leaves the buffer at its initial 0.
\<close>

datatype read_result = ReadByte "8 word" | ReadNothing | ReadError error

datatype AuthContext = AuthCtx nat

text \<open>
  Of a request the handler touches two fields; \<open>decoded\<close> stands for everything
  \<^verbatim>\<open>NewRequest\<close> has filled in. The fields of \<^verbatim>\<open>AddrSpec\<close> carry a prefix, since
  \<open>IP\<close> and \<open>Port\<close> are fields of \<open>FinishedConnInfo\<close> already.
\<close>

record AddrSpec =
  AddrSpec_IP :: "8 word list"
  AddrSpec_Port :: nat

record Request =
  decoded :: nat
  AuthContext :: "AuthContext option"
  RemoteAddr :: "AddrSpec option"

text \<open>
  What one connection and the collaborators do during one run of the handler:
  \<open>conn_RemoteAddr\<close> is the address when \<^verbatim>\<open>conn.RemoteAddr()\<close> is a
  \<^verbatim>\<open>*net.TCPAddr\<close>, the other fields are the results of the calls the handler makes.
\<close>

record env =
  conn_RemoteAddr :: "AddrSpec option"
  read_version :: "read_result outcome"
  authenticate :: "(error + AuthContext) outcome"
  NewRequest :: "(error + Request) outcome"
  sendReply :: "reply_status \<Rightarrow> error option outcome"
  handleRequest :: "Request \<Rightarrow> error option outcome"

datatype log_entry =
    ErrSocks error
  | FailedToGetVersionByte error
  | PanicRecovered panic

text \<open>
  The handler's effects, in the order they happen. \<open>OfferConnCount v\<close> is the
  non-blocking send of \<open>v\<close> on \<^verbatim>\<open>ConnCountChan\<close>, \<open>OfferFinishedConn\<close> a send on
  \<^verbatim>\<open>FinishedConnChan\<close>, \<open>SetDeadline\<close> and \<open>Go\<close> belong to the accept loop.
\<close>

datatype event =
    SemaSend
  | SemaRecv
  | AddConnCount int
  | OfferConnCount int
  | Printf log_entry
  | Read
  | Close
  | Call_authenticate
  | Call_NewRequest
  | Call_sendReply reply_status
  | Call_handleRequest Request
  | OfferFinishedConn FinishedConnInfo
  | SetDeadline nat int
  | Go nat

definition GetConnCount :: "Server \<Rightarrow> int" where
  "GetConnCount s = sint (ConnCount s)"

definition emit :: "event list \<Rightarrow> 'a \<times> event list \<Rightarrow> 'a \<times> event list" where
  "emit evs r = (fst r, evs @ snd r)"

text \<open>
  Lines 188 to 233 of \<^verbatim>\<open>ServeConn\<close>: the protocol run after admission. The result is
  what the \<^verbatim>\<open>return\<close> statement reached gives, or the panic that unwinds the body.
\<close>

definition protocol :: "env \<Rightarrow> error option outcome \<times> event list" where
  "protocol e =
    emit [Read]
     (case read_version e of
        Panics p \<Rightarrow> (Panics p, [])
      | Returns (ReadError err) \<Rightarrow> (Returns (Some err), [Printf (FailedToGetVersionByte err)])
      | Returns rd \<Rightarrow>
         (let version = (case rd of ReadByte b \<Rightarrow> b | _ \<Rightarrow> 0) in
          if version \<noteq> socks5Version
          then (Returns (Some (UnsupportedVersion version)),
                [Printf (ErrSocks (UnsupportedVersion version))])
          else emit [Call_authenticate]
           (case authenticate e of
              Panics p \<Rightarrow> (Panics p, [])
            | Returns (Inl err) \<Rightarrow>
                (Returns (Some (FailedToAuthenticate err)),
                 [Printf (ErrSocks (FailedToAuthenticate err))])
            | Returns (Inr authContext) \<Rightarrow>
               emit [Call_NewRequest]
                (case NewRequest e of
                   Panics p \<Rightarrow> (Panics p, [])
                 | Returns (Inl err) \<Rightarrow>
                     if err = unrecognizedAddrType
                     then emit [Call_sendReply addrTypeNotSupported]
                       (case sendReply e addrTypeNotSupported of
                          Panics p \<Rightarrow> (Panics p, [])
                        | Returns (Some err') \<Rightarrow> (Returns (Some (FailedToSendReply err')), [])
                        | Returns None \<Rightarrow> (Returns (Some (FailedToReadDestination err)), []))
                     else (Returns (Some (FailedToReadDestination err)), [])
                 | Returns (Inr request) \<Rightarrow>
                    (let request1 = request\<lparr>AuthContext := Some authContext\<rparr>;
                         request2 = (case conn_RemoteAddr e of
                                       Some client \<Rightarrow> request1\<lparr>RemoteAddr := Some client\<rparr>
                                     | None \<Rightarrow> request1)
                     in emit [Call_handleRequest request2]
                         (case handleRequest e request2 of
                            Panics p \<Rightarrow> (Panics p, [])
                          | Returns (Some err) \<Rightarrow>
                              (Returns (Some (FailedToHandleRequest err)),
                               [Printf (ErrSocks (FailedToHandleRequest err))])
                          | Returns None \<Rightarrow> (Returns None, [])))))))"

text \<open>
  \<^verbatim>\<open>ServeConn\<close>, lines 160 to 234, run without interference from other handlers.
  The \<^verbatim>\<open>select\<close> of line 167 sends on \<^verbatim>\<open>sema\<close> when its buffer has room and takes
  the \<^verbatim>\<open>default\<close> branch otherwise. The three deferred calls run in reverse order of
  their registration once the body has returned or panicked: the release of lines 175
  to 180, then \<^verbatim>\<open>conn.Close()\<close>, then the function of lines 162 to 164, whose
  \<^verbatim>\<open>recover\<close> stops a panic; the handler then returns the zero value \<^verbatim>\<open>nil\<close> of
  its unnamed result. The server is one built by \<^verbatim>\<open>New\<close>, so its logger is not
  \<^verbatim>\<open>nil\<close> and \<^verbatim>\<open>Printf\<close> returns. The result is the returned value, the server
  afterwards, and the effects.
\<close>

definition ServeConn :: "Server \<Rightarrow> env \<Rightarrow> error option outcome \<times> Server \<times> event list" where
  "ServeConn s e =
    (if chan_len (sema s) < chan_cap (sema s)
     then
       (let s1 = s\<lparr>sema := (sema s)\<lparr>chan_len := chan_len (sema s) + 1\<rparr>\<rparr>;
            s2 = s1\<lparr>ConnCount := ConnCount s1 + 1\<rparr>;
            body = protocol e;
            s3 = s2\<lparr>sema := (sema s2)\<lparr>chan_len := chan_len (sema s2) - 1\<rparr>\<rparr>;
            s4 = s3\<lparr>ConnCount := ConnCount s3 - 1\<rparr>
        in ((case fst body of Returns err \<Rightarrow> Returns err | Panics p \<Rightarrow> Returns None),
            s4,
            [SemaSend, AddConnCount 1, OfferConnCount (GetConnCount s2)] @ snd body @
            [SemaRecv, AddConnCount (- 1), OfferConnCount (GetConnCount s4), Close] @
            (case fst body of Returns err \<Rightarrow> [] | Panics p \<Rightarrow> [Printf (PanicRecovered p)])))
     else (Returns (Some Exhausted), s, [Printf (ErrSocks Exhausted), Close]))"

subsection \<open>The accept loop\<close>

text \<open>
  A listener is the sequence of results of its \<^verbatim>\<open>Accept\<close> calls: an error or a
  connection, here the number of the connection. \<open>Serve_iteration\<close> is the loop body,
  lines 149 to 155, for the configuration \<^verbatim>\<open>s.config\<close> points to: it has no
  \<^verbatim>\<open>break\<close> and no \<^verbatim>\<open>return\<close>, so control goes back to the loop head. \<open>Serve\<close>
  is the loop from its \<open>n\<close>th iteration on; its value is \<open>None\<close> when the loop does
  not return. \<open>Serve_prefix\<close> collects the effects of the first \<open>k\<close> iterations.
\<close>

datatype accept_result = AcceptFailed error | Accepted nat

definition Serve_iteration :: "Config \<Rightarrow> accept_result \<Rightarrow> event list" where
  "Serve_iteration c r =
    (case r of
       AcceptFailed err \<Rightarrow> [Printf (ErrSocks err)]
     | Accepted conn \<Rightarrow> [SetDeadline conn (ConnectTimeout c), Go conn])"

partial_function (option) Serve ::
  "Config \<Rightarrow> (nat \<Rightarrow> accept_result) \<Rightarrow> nat \<Rightarrow> event list \<Rightarrow> event list option" where
  "Serve c l n tr = Serve c l (Suc n) (tr @ Serve_iteration c (l n))"

primrec Serve_prefix :: "Config \<Rightarrow> (nat \<Rightarrow> accept_result) \<Rightarrow> nat \<Rightarrow> event list" where
  "Serve_prefix c l 0 = []"
| "Serve_prefix c l (Suc k) = Serve_prefix c l k @ Serve_iteration c (l k)"

subsection \<open>Handlers running concurrently\<close>

text \<open>
  Each accepted connection runs \<^verbatim>\<open>ServeConn\<close> in a goroutine of its own. The
  handlers share the slot channel and the counter, and touch them in four places: the
  send of line 168, the atomic increment of line 182, the receive of line 175 and the
  atomic decrement of line 176. Channel operations and atomic operations are single
  steps that happen in some total order, so a run of the server is an interleaving of
  these steps. A handler is at one of the following points.
\<close>

datatype pc =
    Entry
  | Rejected
  | Admitted
  | Counted
  | Released
  | Finished

text \<open>
  \<open>Entry\<close>: before the \<^verbatim>\<open>select\<close> of line 167. \<open>Rejected\<close>: the \<^verbatim>\<open>default\<close>
  branch was taken. \<open>Admitted\<close>: the send of line 168 is done, the increment of line 182
  is not. \<open>Counted\<close>: after the increment, in the protocol run of lines 188 to 233, up to
  the moment the body returns or panics. \<open>Released\<close>: the deferred function has received
  from \<^verbatim>\<open>sema\<close> (line 175) and has not yet decremented the counter. \<open>Finished\<close>:
  after the decrement of line 176.
\<close>

record world =
  server :: Server
  handlers :: "pc list"

text \<open>
  \<open>step w i\<close>: handler \<open>i\<close> performs its next operation on the shared state. A receive
  from an empty \<^verbatim>\<open>sema\<close> would block, which leaves the world as it is.
\<close>

definition step :: "world \<Rightarrow> nat \<Rightarrow> world" where
  "step w i =
    (if i < length (handlers w) then
       (let s = server w in
        case handlers w ! i of
          Entry \<Rightarrow>
            if chan_len (sema s) < chan_cap (sema s)
            then \<lparr>server = s\<lparr>sema := (sema s)\<lparr>chan_len := chan_len (sema s) + 1\<rparr>\<rparr>,
                  handlers = (handlers w)[i := Admitted]\<rparr>
            else \<lparr>server = s, handlers = (handlers w)[i := Rejected]\<rparr>
        | Admitted \<Rightarrow>
            \<lparr>server = s\<lparr>ConnCount := ConnCount s + 1\<rparr>,
             handlers = (handlers w)[i := Counted]\<rparr>
        | Counted \<Rightarrow>
            if chan_len (sema s) = 0 then w
            else \<lparr>server = s\<lparr>sema := (sema s)\<lparr>chan_len := chan_len (sema s) - 1\<rparr>\<rparr>,
                  handlers = (handlers w)[i := Released]\<rparr>
        | Released \<Rightarrow>
            \<lparr>server = s\<lparr>ConnCount := ConnCount s - 1\<rparr>,
             handlers = (handlers w)[i := Finished]\<rparr>
        | Rejected \<Rightarrow> w
        | Finished \<Rightarrow> w)
     else w)"

text \<open>
  A schedule is a list of actions: the accept loop starts a handler (line 154), or
  handler \<open>i\<close> takes a step.
\<close>

datatype action = Spawn | Step nat

fun exec :: "action list \<Rightarrow> world \<Rightarrow> world" where
  "exec [] w = w"
| "exec (Spawn # as) w = exec as (w\<lparr>handlers := handlers w @ [Entry]\<rparr>)"
| "exec (Step i # as) w = exec as (step w i)"

definition start :: "Server \<Rightarrow> world" where
  "start s = \<lparr>server = s, handlers = []\<rparr>"

text \<open>
  The handlers that hold a slot: admitted and not yet released. The handlers the counter
  has been incremented for and not yet decremented.
\<close>

definition holders :: "world \<Rightarrow> nat" where
  "holders w = count_list (handlers w) Admitted + count_list (handlers w) Counted"

definition counted :: "world \<Rightarrow> nat" where
  "counted w = count_list (handlers w) Counted + count_list (handlers w) Released"

text \<open>
  The invariant of the shared state: the slot channel holds one value for each handler
  that holds a slot, it is never over its capacity, and the counter is the number of
  counted handlers, as a 64-bit value.
\<close>

definition slot_inv :: "world \<Rightarrow> bool" where
  "slot_inv w =
    (chan_len (sema (server w)) = holders w
     \<and> chan_len (sema (server w)) \<le> chan_cap (sema (server w))
     \<and> ConnCount (server w) = of_nat (counted w))"

subsection \<open>Concrete inputs\<close>

text \<open>Configurations, and the codes of the authenticators, for the examples below.\<close>

definition zero_Config :: Config where
  "zero_Config = \<lparr>AuthMethods = [], Credentials = None, Resolver = None, Rules = None,
     Rewriter = None, BindIP = [], Logger = None, Dial = None, ConnLimit = 0,
     IdleTimeout = 0, ConnectTimeout = 0\<rparr>"

definition code_of :: "Authenticator \<Rightarrow> 8 word" where
  "code_of a = (case a of UserPassAuthenticator _ \<Rightarrow> 2 | NoAuthAuthenticator \<Rightarrow> 0
                | OtherAuthenticator n \<Rightarrow> of_nat n)"

definition creds_Config :: Config where
  "creds_Config = zero_Config\<lparr>Credentials := Some (CredentialStore 1), ConnLimit := 3\<rparr>"

definition custom_Config :: Config where
  "custom_Config = zero_Config\<lparr>AuthMethods := [OtherAuthenticator 9, NoAuthAuthenticator],
     Credentials := Some (CredentialStore 1)\<rparr>"

text \<open>
  A server with one slot, as \<^verbatim>\<open>New\<close> builds it from a configuration with
  ConnLimit 1, and the same server while another handler holds the slot.
\<close>

definition one_Config :: Config where
  "one_Config = zero_Config\<lparr>ConnLimit := 1\<rparr>"

definition one_Server :: Server where
  "one_Server = \<lparr>config = 7, authMethods = [0 \<mapsto> NoAuthAuthenticator], sema = make_chan 1,
     ConnCountChan = make_chan 0, ConnCount = 0, FinishedConnChan = make_chan 0\<rparr>"

definition full_Server :: Server where
  "full_Server = one_Server\<lparr>sema := \<lparr>chan_cap = 1, chan_len = 1\<rparr>, ConnCount := 1\<rparr>"

text \<open>
  Runs of the handler: a client whose first byte is 4; a client that speaks version 5
  and whose request is served; one whose request has an unknown address type, with the
  reply written or failing; one whose request frame is cut short; and one where a
  collaborator panics while the request is handled.
\<close>

definition v4_env :: env where
  "v4_env = \<lparr>conn_RemoteAddr = None, read_version = Returns (ReadByte 4),
     authenticate = Returns (Inr (AuthCtx 0)),
     NewRequest = Returns (Inr \<lparr>decoded = 0, AuthContext = None, RemoteAddr = None\<rparr>),
     sendReply = (\<lambda>_. Returns None), handleRequest = (\<lambda>_. Returns None)\<rparr>"

definition v5_env :: env where
  "v5_env = v4_env\<lparr>read_version := Returns (ReadByte 5)\<rparr>"

definition badaddr_env :: env where
  "badaddr_env = v5_env\<lparr>NewRequest := Returns (Inl unrecognizedAddrType)\<rparr>"

definition badaddr_fail_env :: env where
  "badaddr_fail_env =
     badaddr_env\<lparr>sendReply := (\<lambda>_. Returns (Some (CollaboratorError ''broken pipe'')))\<rparr>"

definition truncated_env :: env where
  "truncated_env = v5_env\<lparr>NewRequest := Returns (Inl (CollaboratorError ''EOF''))\<rparr>"

definition panic_env :: env where
  "panic_env = v5_env\<lparr>handleRequest := (\<lambda>_. Panics (CollaboratorPanic ''rule set''))\<rparr>"

text \<open>A listener that has been closed: every \<^verbatim>\<open>Accept\<close> fails with the same error.\<close>

definition closed_listener :: "nat \<Rightarrow> accept_result" where
  "closed_listener n = AcceptFailed (CollaboratorError ''use of closed network connection'')"

section \<open>The constructor's defaults\<close>

text \<open>
  Each defaulting step of \<^verbatim>\<open>New\<close> is an update of one field, so the configuration
  written back is the caller's with five fields updated.
\<close>

lemma default_AuthMethods:
  "(if length (AuthMethods c) = 0
    then (case Credentials c of
            Some cs \<Rightarrow> c\<lparr>AuthMethods := [UserPassAuthenticator cs]\<rparr>
          | None \<Rightarrow> c\<lparr>AuthMethods := [NoAuthAuthenticator]\<rparr>)
    else c)
   = c\<lparr>AuthMethods := (if AuthMethods c = []
                        then [case Credentials c of
                                Some cs \<Rightarrow> UserPassAuthenticator cs
                              | None \<Rightarrow> NoAuthAuthenticator]
                        else AuthMethods c)\<rparr>"
  by (cases "Credentials c") simp_all

lemma default_Resolver:
  "(if Resolver c = None then c\<lparr>Resolver := Some DNSResolver\<rparr> else c)
   = c\<lparr>Resolver := Some (case Resolver c of None \<Rightarrow> DNSResolver | Some r \<Rightarrow> r)\<rparr>"
  by (cases "Resolver c") simp_all

lemma default_Rules:
  "(if Rules c = None then c\<lparr>Rules := Some PermitAll\<rparr> else c)
   = c\<lparr>Rules := Some (case Rules c of None \<Rightarrow> PermitAll | Some r \<Rightarrow> r)\<rparr>"
  by (cases "Rules c") simp_all

lemma default_Logger:
  "(if Logger c = None then c\<lparr>Logger := Some StdoutLogger\<rparr> else c)
   = c\<lparr>Logger := Some (case Logger c of None \<Rightarrow> StdoutLogger | Some l \<Rightarrow> l)\<rparr>"
  by (cases "Logger c") simp_all

lemma default_ConnLimit:
  "(if ConnLimit c = 0 then c\<lparr>ConnLimit := 50000\<rparr> else c)
   = c\<lparr>ConnLimit := (if ConnLimit c = 0 then 50000 else ConnLimit c)\<rparr>"
  by simp

lemma New_Some:
  assumes "h conf = Some c"
  shows "(let c' = c\<lparr>AuthMethods := (if AuthMethods c = []
                                      then [case Credentials c of
                                              Some cs \<Rightarrow> UserPassAuthenticator cs
                                            | None \<Rightarrow> NoAuthAuthenticator]
                                      else AuthMethods c),
                        Resolver := Some (case Resolver c of None \<Rightarrow> DNSResolver | Some r \<Rightarrow> r),
                        Rules := Some (case Rules c of None \<Rightarrow> PermitAll | Some r \<Rightarrow> r),
                        Logger := Some (case Logger c of None \<Rightarrow> StdoutLogger | Some l \<Rightarrow> l),
                        ConnLimit := (if ConnLimit c = 0 then 50000 else ConnLimit c)\<rparr>
          in New GetCode h conf =
              (h(conf \<mapsto> c'),
               if ConnLimit c' < 0 then Inl MakechanSizeOutOfRange
               else Inr \<lparr>config = conf,
                         authMethods = fold (\<lambda>a m. m(GetCode a \<mapsto> a)) (AuthMethods c') Map.empty,
                         sema = make_chan (nat (ConnLimit c')),
                         ConnCountChan = make_chan 0,
                         ConnCount = 0,
                         FinishedConnChan = make_chan 0\<rparr>))"
  unfolding New_def Let_def default_AuthMethods default_Resolver default_Rules default_Logger
    default_ConnLimit
  using assms by simp

text \<open>
  C8. For every Config whose ConnLimit is 0, the constructor sets the connection cap to
  50000: it returns a server, the slot channel \<open>sema\<close> of that server has capacity 50000
  and is empty, and the ConnLimit stored in the configuration is 50000.
\<close>

theorem New_ConnLimit_default:
  assumes "h conf = Some c" and "ConnLimit c = 0"
  shows "\<exists>srv. snd (New GetCode h conf) = Inr srv
           \<and> chan_cap (sema srv) = 50000 \<and> chan_len (sema srv) = 0
           \<and> map_option ConnLimit (fst (New GetCode h conf) conf) = Some 50000"
  using New_Some [of h conf c GetCode] assms by (simp add: Let_def make_chan_def)

theorem New_ConnLimit_default_witness:
  "[7 \<mapsto> zero_Config] (7::nat) = Some zero_Config \<and> ConnLimit zero_Config = 0
   \<and> (\<exists>srv. snd (New code_of [7 \<mapsto> zero_Config] 7) = Inr srv
           \<and> chan_cap (sema srv) = 50000 \<and> chan_len (sema srv) = 0
           \<and> map_option ConnLimit (fst (New code_of [7 \<mapsto> zero_Config] 7) 7) = Some 50000)"
proof -
  have a: "[7 \<mapsto> zero_Config] (7::nat) = Some zero_Config" by simp
  have b: "ConnLimit zero_Config = 0" by (simp add: zero_Config_def)
  show ?thesis
    using a b New_ConnLimit_default [of "[7 \<mapsto> zero_Config]" 7 zero_Config code_of] by blast
qed

text \<open>
  C9. For every Config with an empty list of authentication methods, the constructor
  installs exactly one authenticator, in the configuration and in the server's table:
  a username/password authenticator over the credential store when one is supplied, the
  no-auth authenticator otherwise. A non-empty list is left as it is.
\<close>

theorem New_AuthMethods_default:
  assumes "h conf = Some c"
  shows "(AuthMethods c = [] \<longrightarrow> Credentials c = Some cs \<longrightarrow>
            map_option AuthMethods (fst (New GetCode h conf) conf) = Some [UserPassAuthenticator cs]
          \<and> (\<forall>srv. snd (New GetCode h conf) = Inr srv \<longrightarrow>
                authMethods srv = [GetCode (UserPassAuthenticator cs) \<mapsto> UserPassAuthenticator cs]))
       \<and> (AuthMethods c = [] \<longrightarrow> Credentials c = None \<longrightarrow>
            map_option AuthMethods (fst (New GetCode h conf) conf) = Some [NoAuthAuthenticator]
          \<and> (\<forall>srv. snd (New GetCode h conf) = Inr srv \<longrightarrow>
                authMethods srv = [GetCode NoAuthAuthenticator \<mapsto> NoAuthAuthenticator]))
       \<and> (AuthMethods c \<noteq> [] \<longrightarrow>
            map_option AuthMethods (fst (New GetCode h conf) conf) = Some (AuthMethods c))"
  using New_Some [of h conf c GetCode] assms by (auto simp add: Let_def split: if_splits)

theorem New_AuthMethods_default_witness:
  "(map_option AuthMethods (fst (New code_of [7 \<mapsto> creds_Config] 7) 7)
      = Some [UserPassAuthenticator (CredentialStore 1)]
    \<and> (\<exists>srv. snd (New code_of [7 \<mapsto> creds_Config] 7) = Inr srv
           \<and> authMethods srv = [2 \<mapsto> UserPassAuthenticator (CredentialStore 1)]))
   \<and> (map_option AuthMethods (fst (New code_of [7 \<mapsto> zero_Config] 7) 7)
      = Some [NoAuthAuthenticator]
    \<and> (\<exists>srv. snd (New code_of [7 \<mapsto> zero_Config] 7) = Inr srv
           \<and> authMethods srv = [0 \<mapsto> NoAuthAuthenticator]))
   \<and> map_option AuthMethods (fst (New code_of [7 \<mapsto> custom_Config] 7) 7)
      = Some [OtherAuthenticator 9, NoAuthAuthenticator]"
proof -
  have r1: "\<exists>srv. snd (New code_of [7 \<mapsto> creds_Config] 7) = Inr srv"
    by (simp add: New_def Let_def creds_Config_def zero_Config_def)
  have r2: "\<exists>srv. snd (New code_of [7 \<mapsto> zero_Config] 7) = Inr srv"
    by (simp add: New_def Let_def zero_Config_def)
  have c1: "AuthMethods creds_Config = []" "Credentials creds_Config = Some (CredentialStore 1)"
    by (simp_all add: creds_Config_def zero_Config_def)
  have c2: "AuthMethods zero_Config = []" "Credentials zero_Config = None"
    by (simp_all add: zero_Config_def)
  have c3: "AuthMethods custom_Config = [OtherAuthenticator 9, NoAuthAuthenticator]"
    by (simp add: custom_Config_def zero_Config_def)
  have k: "code_of (UserPassAuthenticator (CredentialStore 1)) = 2"
    "code_of NoAuthAuthenticator = 0"
    by (simp_all add: code_of_def)
  note t1 = New_AuthMethods_default
    [of "[7 \<mapsto> creds_Config]" 7 creds_Config "CredentialStore 1" code_of]
  note t2 = New_AuthMethods_default [of "[7 \<mapsto> zero_Config]" 7 zero_Config _ code_of]
  note t3 = New_AuthMethods_default [of "[7 \<mapsto> custom_Config]" 7 custom_Config _ code_of]
  from t1 c1 r1 k
  have g1: "map_option AuthMethods (fst (New code_of [7 \<mapsto> creds_Config] 7) 7)
      = Some [UserPassAuthenticator (CredentialStore 1)]
    \<and> (\<exists>srv. snd (New code_of [7 \<mapsto> creds_Config] 7) = Inr srv
           \<and> authMethods srv = [2 \<mapsto> UserPassAuthenticator (CredentialStore 1)])"
    by auto
  from t2 c2 r2 k
  have g2: "map_option AuthMethods (fst (New code_of [7 \<mapsto> zero_Config] 7) 7)
      = Some [NoAuthAuthenticator]
    \<and> (\<exists>srv. snd (New code_of [7 \<mapsto> zero_Config] 7) = Inr srv
           \<and> authMethods srv = [0 \<mapsto> NoAuthAuthenticator])"
    by auto
  from t3 c3
  have g3: "map_option AuthMethods (fst (New code_of [7 \<mapsto> custom_Config] 7) 7)
      = Some [OtherAuthenticator 9, NoAuthAuthenticator]"
    by simp
  from g1 g2 g3 show ?thesis by blast
qed

text \<open>
  C10. For every Config, the constructor writes the defaulted values (authentication
  methods, resolver, rule set, logger, ConnLimit) into the caller's Config object: the
  store after the call differs from the store before it at the caller's address only,
  where it holds the caller's configuration with these five fields defaulted. The
  returned server's \<open>config\<close> is that same address, so the object is shared.
\<close>

theorem New_mutates_shared_Config:
  assumes "h conf = Some c"
  shows "fst (New GetCode h conf) =
           h(conf \<mapsto> c\<lparr>AuthMethods := (if AuthMethods c = []
                                      then [case Credentials c of
                                              Some cs \<Rightarrow> UserPassAuthenticator cs
                                            | None \<Rightarrow> NoAuthAuthenticator]
                                      else AuthMethods c),
                        Resolver := Some (case Resolver c of None \<Rightarrow> DNSResolver | Some r \<Rightarrow> r),
                        Rules := Some (case Rules c of None \<Rightarrow> PermitAll | Some r \<Rightarrow> r),
                        Logger := Some (case Logger c of None \<Rightarrow> StdoutLogger | Some l \<Rightarrow> l),
                        ConnLimit := (if ConnLimit c = 0 then 50000 else ConnLimit c)\<rparr>)
       \<and> (\<forall>srv. snd (New GetCode h conf) = Inr srv \<longrightarrow> config srv = conf)"
  using New_Some [of h conf c GetCode] assms by (auto simp add: Let_def split: if_splits)

theorem New_mutates_shared_Config_witness:
  "fst (New code_of [7 \<mapsto> zero_Config] 7) =
     [7 \<mapsto> zero_Config\<lparr>AuthMethods := [NoAuthAuthenticator], Resolver := Some DNSResolver,
                        Rules := Some PermitAll, Logger := Some StdoutLogger,
                        ConnLimit := 50000\<rparr>]
   \<and> (\<exists>srv. snd (New code_of [7 \<mapsto> zero_Config] 7) = Inr srv \<and> config srv = 7)"
proof -
  have a: "[7 \<mapsto> zero_Config] (7::nat) = Some zero_Config" by simp
  have r: "\<exists>srv. snd (New code_of [7 \<mapsto> zero_Config] 7) = Inr srv"
    by (simp add: New_def Let_def zero_Config_def)
  have z: "AuthMethods zero_Config = []" "Credentials zero_Config = None"
    "Resolver zero_Config = None" "Rules zero_Config = None" "Logger zero_Config = None"
    "ConnLimit zero_Config = 0"
    by (simp_all add: zero_Config_def)
  from New_mutates_shared_Config [of "[7 \<mapsto> zero_Config]" 7 zero_Config code_of] a r z
  show ?thesis by auto
qed

section \<open>The connection handler\<close>

text \<open>
  The protocol run calls the collaborators, reads and logs; it does not touch the slot
  channel, the counter or the channel of finished connections.
\<close>

lemma protocol_events:
  "set (snd (protocol e)) \<subseteq>
     {Read, Call_authenticate, Call_NewRequest, Call_sendReply addrTypeNotSupported}
       \<union> range Printf \<union> range Call_handleRequest"
  by (simp add: protocol_def emit_def Let_def
        split: outcome.split read_result.split sum.split option.split)

lemma protocol_no_slot_events:
  "[x \<leftarrow> snd (protocol e). x \<in> {SemaSend, SemaRecv}] = []"
  "[x \<leftarrow> snd (protocol e). x \<in> range AddConnCount] = []"
  using protocol_events [of e] by (auto simp add: filter_empty_conv)

text \<open>
  With a free slot the handler leaves the server as it found it: the send and the
  receive on \<open>sema\<close> cancel, and so do the increment and the decrement.
\<close>

lemma ServeConn_admitted:
  assumes "chan_len (sema s) < chan_cap (sema s)"
  shows "ServeConn s e =
    ((case fst (protocol e) of Returns err \<Rightarrow> Returns err | Panics p \<Rightarrow> Returns None),
     s,
     [SemaSend, AddConnCount 1, OfferConnCount (sint (ConnCount s + 1))] @ snd (protocol e) @
     [SemaRecv, AddConnCount (- 1), OfferConnCount (sint (ConnCount s)), Close] @
     (case fst (protocol e) of Returns err \<Rightarrow> [] | Panics p \<Rightarrow> [Printf (PanicRecovered p)]))"
  using assms by (simp add: ServeConn_def Let_def GetConnCount_def)

lemma ServeConn_events:
  "set (snd (snd (ServeConn s e))) \<subseteq>
     set (snd (protocol e)) \<union> {SemaSend, SemaRecv, Close} 
       \<union> range AddConnCount \<union> range OfferConnCount \<union> range Printf"
  by (auto simp add: ServeConn_def Let_def split: outcome.split)

lemma protocol_bad_version:
  assumes "read_version e = Returns (ReadByte b)" and "b \<noteq> 5"
  shows "protocol e = (Returns (Some (UnsupportedVersion b)),
                       [Read, Printf (ErrSocks (UnsupportedVersion b))])"
  using assms by (simp add: protocol_def emit_def socks5Version_def)

lemma ServeConn_never_offers_FinishedConn:
  "OfferFinishedConn info \<notin> set (snd (snd (ServeConn s e)))"
  using ServeConn_events [of s e] protocol_events [of e] by auto

text \<open>
  C1. The claim is that every admitted connection, when its handler finishes, has a
  completion record (peer IP, peer port, duration) offered on the channel of finished
  connections. The handler never sends on that channel. For a client that is admitted
  and whose first byte is 4, no collaborator is called, and the effects of the whole run
  are the ones listed here: the slot is taken, the counter is incremented and offered,
  the byte is read, the error is logged, the slot is released, the counter is
  decremented and offered, the connection is closed. No completion record is among them.
\<close>

theorem ServeConn_bad_version_no_completion_record:
  "ServeConn one_Server v4_env =
     (Returns (Some (UnsupportedVersion 4)), one_Server,
      [SemaSend, AddConnCount 1, OfferConnCount 1, Read,
       Printf (ErrSocks (UnsupportedVersion 4)),
       SemaRecv, AddConnCount (- 1), OfferConnCount 0, Close])"
proof -
  have a: "chan_len (sema one_Server) < chan_cap (sema one_Server)"
    by (simp add: one_Server_def make_chan_def)
  have b: "protocol v4_env = (Returns (Some (UnsupportedVersion 4)),
                       [Read, Printf (ErrSocks (UnsupportedVersion 4))])"
    by (rule protocol_bad_version) (simp_all add: v4_env_def)
  have c: "sint (ConnCount one_Server + 1) = 1" "sint (ConnCount one_Server) = 0"
    by (simp_all add: one_Server_def)
  show ?thesis by (simp add: ServeConn_admitted [OF a] b c)
qed

text \<open>
  C3. Every successful admission is paired with exactly one release and exactly one
  decrement of the counter on every exit path. For a server with a free slot and every
  behaviour of the connection and the collaborators: the operations on \<open>sema\<close> are one
  send followed by one receive, the operations on the counter are one increment followed
  by one decrement, and the server is left as it was found. The handler never lets a
  panic through: when the protocol run panics, the handler returns \<^verbatim>\<open>nil\<close> and its
  last effect is the log entry of the recovered panic.
\<close>

theorem ServeConn_release_paired:
  assumes "chan_len (sema s) < chan_cap (sema s)"
  shows "[x \<leftarrow> snd (snd (ServeConn s e)). x \<in> {SemaSend, SemaRecv}] = [SemaSend, SemaRecv]
       \<and> [x \<leftarrow> snd (snd (ServeConn s e)). x \<in> range AddConnCount]
           = [AddConnCount 1, AddConnCount (- 1)]
       \<and> fst (snd (ServeConn s e)) = s
       \<and> (\<forall>p. fst (ServeConn s e) \<noteq> Panics p)
       \<and> (\<forall>p. fst (protocol e) = Panics p \<longrightarrow>
             fst (ServeConn s e) = Returns None
           \<and> last (snd (snd (ServeConn s e))) = Printf (PanicRecovered p))"
proof -
  note run = ServeConn_admitted [OF assms, of e]
  have sema_ops:
    "[x \<leftarrow> snd (snd (ServeConn s e)). x \<in> {SemaSend, SemaRecv}] = [SemaSend, SemaRecv]"
    using protocol_no_slot_events(1) [of e] by (auto simp add: run split: outcome.split)
  have count_ops:
    "[x \<leftarrow> snd (snd (ServeConn s e)). x \<in> range AddConnCount]
       = [AddConnCount 1, AddConnCount (- 1)]"
    using protocol_no_slot_events(2) [of e] by (auto simp add: run split: outcome.split)
  have rest: "fst (snd (ServeConn s e)) = s
       \<and> (\<forall>p. fst (ServeConn s e) \<noteq> Panics p)
       \<and> (\<forall>p. fst (protocol e) = Panics p \<longrightarrow>
             fst (ServeConn s e) = Returns None
           \<and> last (snd (snd (ServeConn s e))) = Printf (PanicRecovered p))"
    by (simp add: run split: outcome.split)
  from sema_ops count_ops rest show ?thesis by blast
qed

theorem ServeConn_release_paired_witness:
  "chan_len (sema one_Server) < chan_cap (sema one_Server)
   \<and> fst (protocol panic_env) = Panics (CollaboratorPanic ''rule set'')
   \<and> [x \<leftarrow> snd (snd (ServeConn one_Server panic_env)). x \<in> {SemaSend, SemaRecv}]
       = [SemaSend, SemaRecv]
   \<and> [x \<leftarrow> snd (snd (ServeConn one_Server panic_env)). x \<in> range AddConnCount]
       = [AddConnCount 1, AddConnCount (- 1)]
   \<and> fst (snd (ServeConn one_Server panic_env)) = one_Server
   \<and> fst (ServeConn one_Server panic_env) = Returns None
   \<and> last (snd (snd (ServeConn one_Server panic_env)))
       = Printf (PanicRecovered (CollaboratorPanic ''rule set''))"
proof -
  have a: "chan_len (sema one_Server) < chan_cap (sema one_Server)"
    by (simp add: one_Server_def make_chan_def)
  have b: "fst (protocol panic_env) = Panics (CollaboratorPanic ''rule set'')"
    by (simp add: protocol_def emit_def socks5Version_def panic_env_def v5_env_def
          v4_env_def)
  from ServeConn_release_paired [OF a, of panic_env] a b show ?thesis by blast
qed

text \<open>
  C4. When the slot channel is full the handler returns the error "exhausted" and its
  only effects are the log entry and the closing of the connection: nothing is read,
  no reply is written, and the server, its counter included, is unchanged.
\<close>

theorem ServeConn_exhausted:
  assumes "chan_cap (sema s) \<le> chan_len (sema s)"
  shows "fst (ServeConn s e) = Returns (Some Exhausted)
       \<and> fst (snd (ServeConn s e)) = s
       \<and> snd (snd (ServeConn s e)) = [Printf (ErrSocks Exhausted), Close]"
  using assms by (simp add: ServeConn_def)

theorem ServeConn_exhausted_witness:
  "chan_cap (sema full_Server) \<le> chan_len (sema full_Server)
   \<and> fst (ServeConn full_Server v5_env) = Returns (Some Exhausted)
   \<and> fst (snd (ServeConn full_Server v5_env)) = full_Server
   \<and> snd (snd (ServeConn full_Server v5_env)) = [Printf (ErrSocks Exhausted), Close]"
proof -
  have a: "chan_cap (sema full_Server) \<le> chan_len (sema full_Server)"
    by (simp add: full_Server_def)
  from ServeConn_exhausted [OF a, of v5_env] a show ?thesis by blast
qed

text \<open>
  C5. For a connection whose first byte is not 5 the handler returns an error, and among
  its effects there is no call of \<^verbatim>\<open>authenticate\<close>, \<^verbatim>\<open>NewRequest\<close>,
  \<^verbatim>\<open>handleRequest\<close> or \<^verbatim>\<open>sendReply\<close>, whether the connection was admitted or not.
  For an admitted connection whose first byte is 5, the call of \<^verbatim>\<open>authenticate\<close>
  follows the read directly.
\<close>

theorem ServeConn_version_check:
  "(read_version e = Returns (ReadByte b) \<and> b \<noteq> 5 \<longrightarrow>
      (\<exists>err. fst (ServeConn s e) = Returns (Some err))
    \<and> Call_authenticate \<notin> set (snd (snd (ServeConn s e)))
    \<and> Call_NewRequest \<notin> set (snd (snd (ServeConn s e)))
    \<and> (\<forall>rq. Call_handleRequest rq \<notin> set (snd (snd (ServeConn s e))))
    \<and> (\<forall>st. Call_sendReply st \<notin> set (snd (snd (ServeConn s e)))))
   \<and> (read_version e = Returns (ReadByte 5) \<and> chan_len (sema s) < chan_cap (sema s) \<longrightarrow>
        take 5 (snd (snd (ServeConn s e))) =
          [SemaSend, AddConnCount 1, OfferConnCount (sint (ConnCount s + 1)), Read,
           Call_authenticate])"
proof (rule conjI; rule impI)
  assume a: "read_version e = Returns (ReadByte b) \<and> b \<noteq> 5"
  then have p: "protocol e = (Returns (Some (UnsupportedVersion b)),
                       [Read, Printf (ErrSocks (UnsupportedVersion b))])"
    by (simp add: protocol_bad_version)
  show "(\<exists>err. fst (ServeConn s e) = Returns (Some err))
    \<and> Call_authenticate \<notin> set (snd (snd (ServeConn s e)))
    \<and> Call_NewRequest \<notin> set (snd (snd (ServeConn s e)))
    \<and> (\<forall>rq. Call_handleRequest rq \<notin> set (snd (snd (ServeConn s e))))
    \<and> (\<forall>st. Call_sendReply st \<notin> set (snd (snd (ServeConn s e))))"
  proof (cases "chan_len (sema s) < chan_cap (sema s)")
    case True
    then show ?thesis by (simp add: ServeConn_admitted p)
  next
    case False
    then show ?thesis by (simp add: ServeConn_def)
  qed
next
  assume a: "read_version e = Returns (ReadByte 5) \<and> chan_len (sema s) < chan_cap (sema s)"
  then have "\<exists>r tr. protocol e = (r, Read # Call_authenticate # tr)"
    by (simp add: protocol_def emit_def socks5Version_def)
  with a show "take 5 (snd (snd (ServeConn s e))) =
          [SemaSend, AddConnCount 1, OfferConnCount (sint (ConnCount s + 1)), Read,
           Call_authenticate]"
    by (auto simp add: ServeConn_admitted)
qed

theorem ServeConn_version_check_witness:
  "((\<exists>err. fst (ServeConn one_Server v4_env) = Returns (Some err))
    \<and> Call_authenticate \<notin> set (snd (snd (ServeConn one_Server v4_env)))
    \<and> Call_NewRequest \<notin> set (snd (snd (ServeConn one_Server v4_env)))
    \<and> (\<forall>rq. Call_handleRequest rq \<notin> set (snd (snd (ServeConn one_Server v4_env))))
    \<and> (\<forall>st. Call_sendReply st \<notin> set (snd (snd (ServeConn one_Server v4_env)))))
   \<and> take 5 (snd (snd (ServeConn one_Server v5_env))) =
          [SemaSend, AddConnCount 1, OfferConnCount 1, Read, Call_authenticate]"
proof -
  have a: "read_version v4_env = Returns (ReadByte 4) \<and> (4 :: 8 word) \<noteq> 5"
    by (simp add: v4_env_def)
  have b: "read_version v5_env = Returns (ReadByte 5)
           \<and> chan_len (sema one_Server) < chan_cap (sema one_Server)"
    by (simp add: v5_env_def v4_env_def one_Server_def make_chan_def)
  have c: "sint (ConnCount one_Server + 1) = 1"
    by (simp add: one_Server_def)
  from ServeConn_version_check [of v4_env 4 one_Server] a
       ServeConn_version_check [of v5_env 4 one_Server] b c
  show ?thesis by simp
qed

text \<open>
  C6. For an admitted connection that speaks version 5 and has authenticated, when
  \<^verbatim>\<open>NewRequest\<close> fails with \<open>unrecognizedAddrType\<close> the handler calls
  \<^verbatim>\<open>sendReply\<close> once, with the status \<open>addrTypeNotSupported\<close>, and then returns an
  error: the decode error, wrapped, when the reply was written, and the error of the
  write when it was not. When \<^verbatim>\<open>NewRequest\<close> fails with any other error, the handler
  returns that error, wrapped, and does not call \<^verbatim>\<open>sendReply\<close>.
\<close>

theorem ServeConn_decode_error_reply:
  assumes "chan_len (sema s) < chan_cap (sema s)"
    and "read_version e = Returns (ReadByte 5)"
    and "authenticate e = Returns (Inr authContext)"
    and "NewRequest e = Returns (Inl err)"
  shows "(err = unrecognizedAddrType \<longrightarrow>
            count_list (snd (snd (ServeConn s e))) (Call_sendReply addrTypeNotSupported) = 1
          \<and> (\<forall>st. Call_sendReply st \<in> set (snd (snd (ServeConn s e))) \<longrightarrow> st = addrTypeNotSupported)
          \<and> (sendReply e addrTypeNotSupported = Returns None \<longrightarrow>
               fst (ServeConn s e) = Returns (Some (FailedToReadDestination unrecognizedAddrType))
             \<and> snd (snd (ServeConn s e)) =
                 [SemaSend, AddConnCount 1, OfferConnCount (sint (ConnCount s + 1)), Read,
                  Call_authenticate, Call_NewRequest, Call_sendReply addrTypeNotSupported,
                  SemaRecv, AddConnCount (- 1), OfferConnCount (sint (ConnCount s)), Close])
          \<and> (\<forall>err'. sendReply e addrTypeNotSupported = Returns (Some err') \<longrightarrow>
               fst (ServeConn s e) = Returns (Some (FailedToSendReply err'))))
       \<and> (err \<noteq> unrecognizedAddrType \<longrightarrow>
            fst (ServeConn s e) = Returns (Some (FailedToReadDestination err))
          \<and> (\<forall>st. Call_sendReply st \<notin> set (snd (snd (ServeConn s e)))))"
proof (cases "err = unrecognizedAddrType")
  case True
  with assms(2-4) have "protocol e =
     ((case sendReply e addrTypeNotSupported of
         Panics p \<Rightarrow> Panics p
       | Returns (Some err') \<Rightarrow> Returns (Some (FailedToSendReply err'))
       | Returns None \<Rightarrow> Returns (Some (FailedToReadDestination unrecognizedAddrType))),
      [Read, Call_authenticate, Call_NewRequest, Call_sendReply addrTypeNotSupported])"
    by (simp add: protocol_def emit_def socks5Version_def split: outcome.split option.split)
  with True show ?thesis
    by (simp add: ServeConn_admitted [OF assms(1)] split: outcome.split)
next
  case False
  with assms(2-4) have "protocol e =
     (Returns (Some (FailedToReadDestination err)), [Read, Call_authenticate, Call_NewRequest])"
    by (simp add: protocol_def emit_def socks5Version_def)
  with False show ?thesis
    by (simp add: ServeConn_admitted [OF assms(1)])
qed

theorem ServeConn_decode_error_reply_witness:
  "(count_list (snd (snd (ServeConn one_Server badaddr_env)))
       (Call_sendReply addrTypeNotSupported) = 1
    \<and> fst (ServeConn one_Server badaddr_env)
        = Returns (Some (FailedToReadDestination unrecognizedAddrType))
    \<and> snd (snd (ServeConn one_Server badaddr_env)) =
         [SemaSend, AddConnCount 1, OfferConnCount 1, Read,
          Call_authenticate, Call_NewRequest, Call_sendReply addrTypeNotSupported,
          SemaRecv, AddConnCount (- 1), OfferConnCount 0, Close])
   \<and> (count_list (snd (snd (ServeConn one_Server badaddr_fail_env)))
       (Call_sendReply addrTypeNotSupported) = 1
    \<and> fst (ServeConn one_Server badaddr_fail_env)
        = Returns (Some (FailedToSendReply (CollaboratorError ''broken pipe''))))
   \<and> (fst (ServeConn one_Server truncated_env)
        = Returns (Some (FailedToReadDestination (CollaboratorError ''EOF'')))
    \<and> (\<forall>st. Call_sendReply st \<notin> set (snd (snd (ServeConn one_Server truncated_env)))))"
proof -
  have a: "chan_len (sema one_Server) < chan_cap (sema one_Server)"
    by (simp add: one_Server_def make_chan_def)
  have c: "sint (ConnCount one_Server + 1) = 1" "sint (ConnCount one_Server) = 0"
    by (simp_all add: one_Server_def)
  have e1: "read_version badaddr_env = Returns (ReadByte 5)"
    "authenticate badaddr_env = Returns (Inr (AuthCtx 0))"
    "NewRequest badaddr_env = Returns (Inl unrecognizedAddrType)"
    "sendReply badaddr_env addrTypeNotSupported = Returns None"
    by (simp_all add: badaddr_env_def v5_env_def v4_env_def)
  have e2: "read_version badaddr_fail_env = Returns (ReadByte 5)"
    "authenticate badaddr_fail_env = Returns (Inr (AuthCtx 0))"
    "NewRequest badaddr_fail_env = Returns (Inl unrecognizedAddrType)"
    "sendReply badaddr_fail_env addrTypeNotSupported
       = Returns (Some (CollaboratorError ''broken pipe''))"
    by (simp_all add: badaddr_fail_env_def badaddr_env_def v5_env_def v4_env_def)
  have e3: "read_version truncated_env = Returns (ReadByte 5)"
    "authenticate truncated_env = Returns (Inr (AuthCtx 0))"
    "NewRequest truncated_env = Returns (Inl (CollaboratorError ''EOF''))"
    by (simp_all add: truncated_env_def v5_env_def v4_env_def)
  from ServeConn_decode_error_reply [OF a e1(1,2,3)] e1(4) c
  have g1: "count_list (snd (snd (ServeConn one_Server badaddr_env)))
       (Call_sendReply addrTypeNotSupported) = 1
    \<and> fst (ServeConn one_Server badaddr_env)
        = Returns (Some (FailedToReadDestination unrecognizedAddrType))
    \<and> snd (snd (ServeConn one_Server badaddr_env)) =
         [SemaSend, AddConnCount 1, OfferConnCount 1, Read,
          Call_authenticate, Call_NewRequest, Call_sendReply addrTypeNotSupported,
          SemaRecv, AddConnCount (- 1), OfferConnCount 0, Close]"
    by simp
  from ServeConn_decode_error_reply [OF a e2(1,2,3)] e2(4)
  have g2: "count_list (snd (snd (ServeConn one_Server badaddr_fail_env)))
       (Call_sendReply addrTypeNotSupported) = 1
    \<and> fst (ServeConn one_Server badaddr_fail_env)
        = Returns (Some (FailedToSendReply (CollaboratorError ''broken pipe'')))"
    by simp
  from ServeConn_decode_error_reply [OF a e3(1,2,3)]
  have g3: "fst (ServeConn one_Server truncated_env)
        = Returns (Some (FailedToReadDestination (CollaboratorError ''EOF'')))
    \<and> (\<forall>st. Call_sendReply st \<notin> set (snd (snd (ServeConn one_Server truncated_env))))"
    by simp
  from g1 g2 g3 show ?thesis by blast
qed

section \<open>The accept loop\<close>

lemma Serve_diverges: "Serve c l n tr = None"
proof (cases "Serve c l n tr")
  case None
  then show ?thesis .
next
  case (Some y)
  have False
    by (rule Serve.raw_induct [where P = "\<lambda>c l n tr y. False", OF _ Some]) blast
  then show ?thesis ..
qed

text \<open>
  C7, as the code has it. The accept loop never returns, whatever the listener does.
  An iteration whose \<^verbatim>\<open>Accept\<close> fails logs the error and nothing else, whatever the
  error is, and the loop goes on with the next iteration: the effects of the first
  \<open>k + 1\<close> iterations are those of the first \<open>k\<close> followed by those of iteration \<open>k\<close>.
\<close>

theorem Serve_never_returns:
  "Serve c l n tr = None
   \<and> Serve_iteration c (AcceptFailed err) = [Printf (ErrSocks err)]
   \<and> Serve_prefix c l (Suc k) = Serve_prefix c l k @ Serve_iteration c (l k)"
  by (simp add: Serve_diverges Serve_iteration_def)

text \<open>
  The claim has the loop stop on a fatal listener error. On a closed listener, where
  every \<^verbatim>\<open>Accept\<close> fails, the loop does not return; its first three iterations log
  the error three times.
\<close>

theorem Serve_closed_listener_goes_on:
  "Serve zero_Config closed_listener 0 [] = None
   \<and> Serve_prefix zero_Config closed_listener 3 =
       [Printf (ErrSocks (CollaboratorError ''use of closed network connection'')),
        Printf (ErrSocks (CollaboratorError ''use of closed network connection'')),
        Printf (ErrSocks (CollaboratorError ''use of closed network connection''))]"
  by (simp add: Serve_diverges numeral_3_eq_3 Serve_iteration_def closed_listener_def)

section \<open>Handlers running concurrently\<close>

lemma count_list_update:
  "i < length xs \<Longrightarrow>
     count_list (xs[i := y]) z + (if xs ! i = z then 1 else 0)
       = count_list xs z + (if y = z then 1 else 0)"
proof (induction xs arbitrary: i)
  case Nil
  then show ?case by simp
next
  case (Cons x xs)
  show ?case
  proof (cases i)
    case 0
    then show ?thesis by simp
  next
    case (Suc j)
    with Cons.prems have "j < length xs" by simp
    from Cons.IH [OF this] Suc show ?thesis by (auto split: if_splits)
  qed
qed

lemma count_list_move:
  assumes "i < length xs" and "xs ! i = a" and "a \<noteq> b"
  shows "count_list xs a = Suc (count_list (xs[i := b]) a)"
    and "count_list (xs[i := b]) b = Suc (count_list xs b)"
    and "z \<noteq> a \<Longrightarrow> z \<noteq> b \<Longrightarrow> count_list (xs[i := b]) z = count_list xs z"
  using count_list_update [OF assms(1), of b a] count_list_update [OF assms(1), of b b]
    count_list_update [OF assms(1), of b z] assms(2,3)
  by (auto split: if_splits)

lemma step_chan_cap: "chan_cap (sema (server (step w i))) = chan_cap (sema (server w))"
  by (simp add: step_def Let_def split: pc.split)

lemma step_slot_inv:
  assumes "slot_inv w"
  shows "slot_inv (step w i)"
proof (cases "i < length (handlers w)")
  case False
  with assms show ?thesis by (simp add: step_def)
next
  case True
  show ?thesis
  proof (cases "handlers w ! i")
    case Entry
    note m = count_list_move [OF True Entry]
    show ?thesis
      using assms True Entry m(2) [of Admitted] m(3) [of Rejected Admitted]
        m(3) [of Rejected Counted] m(3) [of Rejected Released]
        m(3) [of Admitted Counted] m(3) [of Admitted Released]
      by (simp add: step_def Let_def slot_inv_def holders_def counted_def)
  next
    case Rejected
    with assms True show ?thesis by (simp add: step_def)
  next
    case Admitted
    note m = count_list_move [OF True Admitted, of Counted]
    show ?thesis
      using assms True Admitted m(1,2) m(3) [of Released]
      by (simp add: step_def Let_def slot_inv_def holders_def counted_def)
  next
    case Counted
    note m = count_list_move [OF True Counted, of Released]
    show ?thesis
      using assms True Counted m(1,2) m(3) [of Admitted]
      by (simp add: step_def Let_def slot_inv_def holders_def counted_def)
  next
    case Released
    note m = count_list_move [OF True Released, of Finished]
    show ?thesis
      using assms True Released m(1) m(3) [of Admitted] m(3) [of Counted]
      by (simp add: step_def Let_def slot_inv_def holders_def counted_def)
  next
    case Finished
    with assms True show ?thesis by (simp add: step_def)
  qed
qed

lemma exec_slot_inv: "slot_inv w \<Longrightarrow> slot_inv (exec sched w)"
proof (induction sched w rule: exec.induct)
  case (1 w)
  then show ?case by simp
next
  case (2 as w)
  have "slot_inv (w\<lparr>handlers := handlers w @ [Entry]\<rparr>)"
    using "2.prems" by (simp add: slot_inv_def holders_def counted_def)
  then show ?case using "2.IH" by simp
next
  case (3 i as w)
  then show ?case by (simp add: step_slot_inv)
qed

lemma exec_chan_cap: "chan_cap (sema (server (exec sched w))) = chan_cap (sema (server w))"
  by (induction sched w rule: exec.induct) (simp_all add: step_chan_cap)

lemma start_slot_inv:
  "chan_len (sema s) = 0 \<Longrightarrow> ConnCount s = 0 \<Longrightarrow> slot_inv (start s)"
  by (simp add: slot_inv_def start_def holders_def counted_def)

lemma GetConnCount_of_nat:
  "n < 2 ^ 63 \<Longrightarrow> ConnCount s = of_nat n \<Longrightarrow> GetConnCount s = int n"
  by (simp add: GetConnCount_def signed_of_nat signed_take_bit_int_eq_self)

lemma New_server:
  assumes "snd (New GetCode h conf) = Inr s" and "fst (New GetCode h conf) conf = Some c"
  shows "0 < ConnLimit c" and "sema s = make_chan (nat (ConnLimit c))" and "ConnCount s = 0"
proof -
  from assms(1) obtain c0 where c0: "h conf = Some c0"
    by (cases "h conf") (simp_all add: New_def)
  from New_Some [of h conf c0 GetCode] c0 assms
  show "0 < ConnLimit c" and "sema s = make_chan (nat (ConnLimit c))" and "ConnCount s = 0"
    by (auto simp add: Let_def split: if_splits)
qed

text \<open>
  C2, as the code has it. Take a server returned by \<^verbatim>\<open>New\<close> and the configuration
  \<^verbatim>\<open>New\<close> has left at the caller's address. The slot channel has capacity ConnLimit,
  which is positive. After every schedule of accept-loop and handler steps: the handlers
  that are admitted and have not released their slot are as many as the values in the
  slot channel and at most ConnLimit; the counter is the number of handlers between
  their increment and their decrement, as a 64-bit value, and \<^verbatim>\<open>GetConnCount\<close>
  returns that number while it is below \<open>2 ^ 63\<close>. ConnLimit is a Go \<^verbatim>\<open>int\<close>, of
  64 bits at most, hence below \<open>2 ^ 63\<close>. When no handler is between its
  admission and its increment, or between its release and its decrement,
  \<^verbatim>\<open>GetConnCount\<close> returns the number of admitted, unreleased handlers.
\<close>

theorem slots_bounded_counter_tracks:
  assumes "snd (New GetCode h conf) = Inr s" and "fst (New GetCode h conf) conf = Some c"
    and "ConnLimit c < 2 ^ 63"
  shows "0 < ConnLimit c
       \<and> chan_cap (sema (server (exec sched (start s)))) = nat (ConnLimit c)
       \<and> holders (exec sched (start s)) \<le> nat (ConnLimit c)
       \<and> chan_len (sema (server (exec sched (start s)))) = holders (exec sched (start s))
       \<and> ConnCount (server (exec sched (start s))) = of_nat (counted (exec sched (start s)))
       \<and> (counted (exec sched (start s)) < 2 ^ 63 \<longrightarrow>
            GetConnCount (server (exec sched (start s))) = int (counted (exec sched (start s))))
       \<and> (count_list (handlers (exec sched (start s))) Admitted = 0
          \<and> count_list (handlers (exec sched (start s))) Released = 0 \<longrightarrow>
            GetConnCount (server (exec sched (start s))) = int (holders (exec sched (start s))))"
proof -
  let ?w = "exec sched (start s)"
  note n = New_server [OF assms(1,2)]
  have cap0: "chan_cap (sema (server (start s))) = nat (ConnLimit c)"
    by (simp add: start_def n(2) make_chan_def)
  have "slot_inv (start s)"
    by (rule start_slot_inv) (simp_all add: n make_chan_def)
  then have inv: "slot_inv ?w"
    by (rule exec_slot_inv)
  have cap: "chan_cap (sema (server ?w)) = nat (ConnLimit c)"
    by (simp add: exec_chan_cap cap0)
  from inv cap have bound: "holders ?w \<le> nat (ConnLimit c)"
    by (simp add: slot_inv_def)
  from inv have len: "chan_len (sema (server ?w)) = holders ?w"
    and cnt: "ConnCount (server ?w) = of_nat (counted ?w)"
    by (simp_all add: slot_inv_def)
  have get: "GetConnCount (server ?w) = int (counted ?w)" if "counted ?w < 2 ^ 63"
    using that cnt by (rule GetConnCount_of_nat)
  have quiet: "GetConnCount (server ?w) = int (holders ?w)"
    if q: "count_list (handlers ?w) Admitted = 0 \<and> count_list (handlers ?w) Released = 0"
  proof -
    from q have eq: "counted ?w = holders ?w"
      by (simp add: counted_def holders_def)
    from assms(3) have "nat (ConnLimit c) < 2 ^ 63"
      by simp
    with bound eq have "counted ?w < 2 ^ 63" by simp
    from get [OF this] eq show ?thesis by simp
  qed
  from n(1) cap bound len cnt get quiet show ?thesis by blast
qed

theorem slots_bounded_counter_tracks_witness:
  "snd (New code_of [7 \<mapsto> one_Config] 7) = Inr one_Server
   \<and> fst (New code_of [7 \<mapsto> one_Config] 7) 7
       = Some (one_Config\<lparr>AuthMethods := [NoAuthAuthenticator], Resolver := Some DNSResolver,
                           Rules := Some PermitAll, Logger := Some StdoutLogger\<rparr>)
   \<and> chan_cap (sema (server (exec [Spawn, Step 0, Step 0] (start one_Server)))) = 1
   \<and> holders (exec [Spawn, Step 0, Step 0] (start one_Server)) = 1
   \<and> counted (exec [Spawn, Step 0, Step 0] (start one_Server)) = 1
   \<and> chan_len (sema (server (exec [Spawn, Step 0, Step 0] (start one_Server)))) = 1
   \<and> ConnCount (server (exec [Spawn, Step 0, Step 0] (start one_Server))) = 1
   \<and> GetConnCount (server (exec [Spawn, Step 0, Step 0] (start one_Server))) = 1"
proof -
  let ?c = "one_Config\<lparr>AuthMethods := [NoAuthAuthenticator], Resolver := Some DNSResolver,
                           Rules := Some PermitAll, Logger := Some StdoutLogger\<rparr>"
  let ?w = "exec [Spawn, Step 0, Step 0] (start one_Server)"
  have a: "snd (New code_of [7 \<mapsto> one_Config] 7) = Inr one_Server"
    by (simp add: New_def Let_def one_Config_def zero_Config_def one_Server_def code_of_def)
  have b: "fst (New code_of [7 \<mapsto> one_Config] 7) 7 = Some ?c"
    by (simp add: New_def Let_def one_Config_def zero_Config_def)
  have l: "ConnLimit ?c = 1"
    by (simp add: one_Config_def)
  then have c: "ConnLimit ?c < 2 ^ 63"
    by simp
  have hs: "handlers ?w = [Counted]"
    by (simp add: step_def Let_def start_def one_Server_def make_chan_def)
  then have k: "holders ?w = 1" "counted ?w = 1" "count_list (handlers ?w) Admitted = 0"
    "count_list (handlers ?w) Released = 0"
    by (simp_all add: holders_def counted_def)
  from slots_bounded_counter_tracks [OF a b c, of "[Spawn, Step 0, Step 0]"] a b l k
  show ?thesis by simp
qed

text \<open>
  C2 as stated has the counter equal to the number of admitted, unreleased handlers in
  every reachable state. On the server \<^verbatim>\<open>New\<close> builds for ConnLimit 1: after the first
  handler's admission and before its increment one handler holds a slot and
  \<^verbatim>\<open>GetConnCount\<close> returns 0; and when the first handler has released its slot but
  not yet decremented, and a second handler has been admitted and counted, one handler
  holds a slot and \<^verbatim>\<open>GetConnCount\<close> returns 2.
\<close>

theorem counter_differs_from_slot_holders:
  "snd (New code_of [7 \<mapsto> one_Config] 7) = Inr one_Server
   \<and> holders (exec [Spawn, Step 0] (start one_Server)) = 1
   \<and> GetConnCount (server (exec [Spawn, Step 0] (start one_Server))) = 0
   \<and> holders (exec [Spawn, Spawn, Step 0, Step 0, Step 0, Step 1, Step 1] (start one_Server)) = 1
   \<and> GetConnCount (server (exec [Spawn, Spawn, Step 0, Step 0, Step 0, Step 1, Step 1]
         (start one_Server))) = 2"
proof -
  have a: "snd (New code_of [7 \<mapsto> one_Config] 7) = Inr one_Server"
    by (simp add: New_def Let_def one_Config_def zero_Config_def one_Server_def code_of_def)
  have w1: "exec [Spawn, Step 0] (start one_Server)
      = \<lparr>server = one_Server\<lparr>sema := \<lparr>chan_cap = 1, chan_len = 1\<rparr>\<rparr>, handlers = [Admitted]\<rparr>"
    by (simp add: step_def Let_def start_def one_Server_def make_chan_def)
  have w2: "exec [Spawn, Spawn, Step 0, Step 0, Step 0, Step 1, Step 1] (start one_Server)
      = \<lparr>server = one_Server\<lparr>sema := \<lparr>chan_cap = 1, chan_len = 1\<rparr>, ConnCount := 2\<rparr>,
         handlers = [Released, Counted]\<rparr>"
    by (simp add: step_def Let_def start_def one_Server_def make_chan_def)
  show ?thesis
    unfolding w1 w2 using a by (simp add: holders_def GetConnCount_def one_Server_def)
qed

text \<open>
  The interleaved steps and the handler run alone agree on the shared state: the four
  steps of a handler that finds a free slot, like the single step of one that is
  rejected, leave the server as \<^verbatim>\<open>ServeConn\<close> leaves it.
\<close>

lemma ServeConn_as_steps:
  assumes "i < length (handlers w)" and "handlers w ! i = Entry"
  shows "server (step (step (step (step w i) i) i) i) = fst (snd (ServeConn (server w) e))"
    and "handlers (step (step (step (step w i) i) i) i) =
           (handlers w)[i := (if chan_len (sema (server w)) < chan_cap (sema (server w))
                              then Finished else Rejected)]"
  using assms by (simp_all add: step_def Let_def ServeConn_def)

end
